theory Spec2Isabelle
  imports Main "HOL-Library.AList"
begin

section \<open>The login route of the managed-sessions exercise\<close>

text \<open>
  The development embeds \<^verbatim>\<open>app/routes/_auth+/login.tsx\<close>: the form schema
  \<^verbatim>\<open>LoginFormSchema\<close>, the \<^verbatim>\<open>loader\<close> and the \<^verbatim>\<open>action\<close>. The route
  awaits collaborators that live in other modules; each awaited call is an explicit
  step on a world state, so that the order of the calls and their effects on the
  stores can be stated.
\<close>

subsection \<open>Data model\<close>

text \<open>Instants are milliseconds since the epoch, the number \<^verbatim>\<open>Date.now()\<close> returns.\<close>

type_synonym time = int

record User =
  user_id :: string
  user_name :: string
  passwordHash :: string

record Session =
  session_id :: string
  userId :: string
  createdAt :: time
  expiresAt :: "time option"

text \<open>
  A cookie session is the key/value object behind \<^verbatim>\<open>cookieSession.set\<close>. On the
  wire it is either a signed value or something that does not parse.
\<close>

type_synonym cookie_data = "(string \<times> string) list"

datatype cookie_header = Malformed string | Signed cookie_data string

record set_cookie =
  cookie_value :: cookie_header
  expires :: "time option"

text \<open>The calls the route awaits, in the order they complete.\<close>

datatype call = RequireAnonymous | FormData | Login | GetSession | CommitSession

datatype error = StoreUnavailable | FailedParsingIntent

text \<open>
  What the route imports and this development does not fix: the field schemas of
  \<^verbatim>\<open>user-validation.ts\<close> and \<^verbatim>\<open>zod-extensions.ts\<close> (each maps the raw field,
  absent or a string, to its issues or to its output), \<^verbatim>\<open>safeRedirect\<close>, the
  constants \<^verbatim>\<open>userIdKey\<close> and \<^verbatim>\<open>SESSION_EXPIRATION_TIME\<close> of
  \<^verbatim>\<open>auth.server.ts\<close>, the key \<^verbatim>\<open>sessionKey\<close> that the comments of the route
  name, the password check against a stored hash, the signature of a cookie value, the
  milliseconds each awaited call takes, and what conform makes of a list intent: the
  payload it rewrites, or nothing when it cannot read the intent's argument or cannot
  apply it to the payload, in which case \<^verbatim>\<open>parse\<close> throws.
\<close>

record env =
  usernameSchema :: "string option \<Rightarrow> string list + string"
  passwordSchema :: "string option \<Rightarrow> string list + string"
  checkboxSchema :: "string option \<Rightarrow> string list + bool"
  safeRedirect :: "string option \<Rightarrow> string"
  userIdKey :: string
  sessionKey :: string
  SESSION_EXPIRATION_TIME :: int
  checkPassword :: "string \<Rightarrow> string \<Rightarrow> bool"
  sign_data :: "cookie_data \<Rightarrow> string"
  duration :: "call \<Rightarrow> nat"
  applyListIntent :: "string \<Rightarrow> (string \<times> string) list \<Rightarrow> (string \<times> string) list option"

text \<open>
  The world a request runs in: the Credential Store, the Session Store, the clock, the
  random identifiers the Session Store will draw, and the log of completed calls.
\<close>

record world =
  users :: "User list"
  sessions :: "string \<rightharpoonup> Session"
  now :: time
  entropy :: "string list"
  calls :: "call list"

text \<open>
  A request carries its \<^verbatim>\<open>Cookie\<close> header and a form body. \<^verbatim>\<open>parse\<close> of
  conform reads two things off the body: the intent and the payload of named fields.
\<close>

record request =
  cookie :: "cookie_header option"
  formIntent :: string
  formFields :: "(string \<times> string) list"

text \<open>
  The output of \<^verbatim>\<open>LoginFormSchema\<close>, and the value the transform returns. The
  password is optional only because the action deletes it from the value (line 68);
  the schema always yields one.
\<close>

record login_form =
  username :: string
  password :: "string option"
  redirectTo :: "string option"
  remember :: bool

record login_value = login_form +
  user :: "Session option"

type_synonym issues = "(string \<times> string list) list"

record submission =
  intent :: string
  payload :: "(string \<times> string) list"
  val :: "login_value option"
  error :: issues

datatype body = NoData | ActionData string submission

datatype response = Json nat body | Redirect nat string "set_cookie option"

datatype outcome = Return response | Throw response | Crash error

datatype guard_signal = AlreadyAuthenticated | AnonymousProceed

subsection \<open>Awaited calls and the clock\<close>

text \<open>A call that completes is logged and has taken its time.\<close>

definition finish :: "env \<Rightarrow> call \<Rightarrow> world \<Rightarrow> world" where
  "finish e c w = w\<lparr>now := now w + int (duration e c), calls := calls w @ [c]\<rparr>"

subsection \<open>Credential Store\<close>

text \<open>
  Modelled from the spec: the Credential Store behind \<^verbatim>\<open>login\<close> of
  \<^verbatim>\<open>auth.server.ts\<close> is not among the sources. Section 4.1: \<open>verify\<close> looks the
  user up by username; if absent, null; if present, the User when the password matches
  the stored hash and null otherwise. It reads only.
\<close>

definition verify :: "env \<Rightarrow> world \<Rightarrow> string \<Rightarrow> string \<Rightarrow> User option" where
  "verify e w name pw =
     (case find (\<lambda>u. user_name u = name) (users w) of
        None \<Rightarrow> None
      | Some u \<Rightarrow> if checkPassword e pw (passwordHash u) then Some u else None)"

subsection \<open>Session Store\<close>

text \<open>
  Modelled from the spec: the Session Store is not among the sources. Section 4.2:
  \<open>create\<close> draws a random identifier, retrying on collision with an existing one,
  writes the record and returns it; when no identifier can be drawn the store is
  unavailable. \<open>get\<close> returns null if the record is absent or if its \<open>expiresAt\<close> is
  non-null and in the past.
\<close>

definition create :: "world \<Rightarrow> string \<Rightarrow> time option \<Rightarrow> (Session \<times> world) option" where
  "create w uid ex =
     (case dropWhile (\<lambda>i. sessions w i \<noteq> None) (entropy w) of
        [] \<Rightarrow> None
      | i # rest \<Rightarrow>
          (let s = \<lparr>session_id = i, userId = uid, createdAt = now w, expiresAt = ex\<rparr>
           in Some (s, w\<lparr>sessions := (sessions w)(i \<mapsto> s), entropy := rest\<rparr>)))"

definition get :: "world \<Rightarrow> string \<Rightarrow> Session option" where
  "get w sid =
     (case sessions w sid of
        None \<Rightarrow> None
      | Some s \<Rightarrow>
          (case expiresAt s of
             None \<Rightarrow> Some s
           | Some t \<Rightarrow> if t < now w then None else Some s))"

subsection \<open>Session Cookie Codec\<close>

text \<open>
  Modelled from the spec: \<^verbatim>\<open>session.server.ts\<close> is not among the sources.
  Section 4.3: reading a header never throws; an absent, malformed or wrongly signed
  header degrades to an empty session. Committing signs the data; the cookie has an
  \<open>Expires\<close> attribute exactly when an expiry is passed, and then it is that expiry.
  \<open>decode\<close> reads the session identifier, stored under \<^verbatim>\<open>sessionKey\<close>.
\<close>

definition getSession :: "env \<Rightarrow> cookie_header option \<Rightarrow> cookie_data" where
  "getSession e h =
     (case h of
        None \<Rightarrow> []
      | Some (Malformed x) \<Rightarrow> []
      | Some (Signed d sg) \<Rightarrow> if sg = sign_data e d then d else [])"

definition commitSession :: "env \<Rightarrow> cookie_data \<Rightarrow> time option \<Rightarrow> set_cookie" where
  "commitSession e d ex = \<lparr>cookie_value = Signed d (sign_data e d), expires = ex\<rparr>"

definition decode :: "env \<Rightarrow> cookie_header option \<Rightarrow> string option" where
  "decode e h = map_of (getSession e h) (sessionKey e)"

subsection \<open>Anonymous Guard\<close>

text \<open>
  Modelled from the spec: \<^verbatim>\<open>requireAnonymous\<close> of \<^verbatim>\<open>auth.server.ts\<close> is not
  among the sources. Section 4.5: decode the cookie; if a session identifier decodes
  and \<open>get\<close> returns a live Session, signal "already authenticated"; if decoding
  fails, or the session is absent or expired, signal "anonymous, proceed". The route
  only awaits the guard, so "already authenticated" reaches the client as a thrown
  redirect to the home route.
\<close>

definition requireAnonymous :: "env \<Rightarrow> world \<Rightarrow> request \<Rightarrow> guard_signal" where
  "requireAnonymous e w r =
     (case decode e (cookie r) of
        None \<Rightarrow> AnonymousProceed
      | Some sid \<Rightarrow>
          (case get w sid of
             None \<Rightarrow> AnonymousProceed
           | Some s \<Rightarrow> AlreadyAuthenticated))"

definition redirectAway :: response where
  "redirectAway = Redirect 302 ''/'' None"

subsection \<open>Login\<close>

text \<open>
  Modelled from the spec: \<^verbatim>\<open>login\<close> of \<^verbatim>\<open>auth.server.ts\<close> is not among the
  sources. Section 4.4, steps 1 to 3: verify the credential, null when that fails;
  compute \<open>expiresAt\<close>, \<open>now + SESSION_EXPIRATION_DURATION\<close> when remember-me is set
  and null otherwise; create the Session and return it (the comments of the route: "this
  returns a session, not a user"). A store that cannot create is a fatal error.
\<close>

definition login :: "env \<Rightarrow> login_form \<Rightarrow> world \<Rightarrow> (error + Session option) \<times> world" where
  "login e d w =
     (case (case password d of None \<Rightarrow> None | Some pw \<Rightarrow> verify e w (username d) pw) of
        None \<Rightarrow> (Inr None, finish e Login w)
      | Some u \<Rightarrow>
          (case create w (user_id u)
                  (if remember d then Some (now w + SESSION_EXPIRATION_TIME e) else None) of
             None \<Rightarrow> (Inl StoreUnavailable, finish e Login w)
           | Some (s, w') \<Rightarrow> (Inr (Some s), finish e Login w')))"

subsection \<open>The form schema and its transform (lines 27 to 62)\<close>

definition field_issues :: "string \<Rightarrow> string list + 'a \<Rightarrow> issues" where
  "field_issues k r = (case r of Inl ms \<Rightarrow> [(k, ms)] | Inr v \<Rightarrow> [])"

definition LoginFormSchema :: "env \<Rightarrow> (string \<times> string) list \<Rightarrow> issues + login_form" where
  "LoginFormSchema e p =
     (case (usernameSchema e (map_of p ''username''),
            passwordSchema e (map_of p ''password''),
            checkboxSchema e (map_of p ''remember'')) of
        (Inr u, Inr pw, Inr rm) \<Rightarrow>
          Inr \<lparr>username = u, password = Some pw,
               redirectTo = map_of p ''redirectTo'', remember = rm\<rparr>
      | (ru, rp, rr) \<Rightarrow>
          Inl (field_issues ''username'' ru @ field_issues ''password'' rp
               @ field_issues ''remember'' rr))"

definition with_user :: "login_form \<Rightarrow> Session option \<Rightarrow> login_value" where
  "with_user d u =
     \<lparr>username = username d, password = password d, redirectTo = redirectTo d,
      remember = remember d, user = u\<rparr>"

text \<open>
  The transform of lines 44 to 60: the issue it adds has no path, so it is filed under
  the form itself, the empty name.
\<close>

definition transform ::
  "env \<Rightarrow> string \<Rightarrow> login_form \<Rightarrow> world \<Rightarrow> (error + (issues + login_value)) \<times> world" where
  "transform e i d w =
     (if i \<noteq> ''submit'' then (Inr (Inr (with_user d None)), w)
      else
        (case login e d w of
           (Inl err, w') \<Rightarrow> (Inl err, w')
         | (Inr None, w') \<Rightarrow> (Inr (Inl [('''', [''Invalid username or password''])]), w')
         | (Inr (Some u), w') \<Rightarrow> (Inr (Inr (with_user d (Some u))), w')))"

text \<open>
  The resolve step of \<^verbatim>\<open>parse\<close>, with the schema of lines 43 to 60: the
  transform runs only on a payload the object schema accepts, and the submission has a
  value only when no issue was raised.
\<close>

definition resolve ::
  "env \<Rightarrow> string \<Rightarrow> (string \<times> string) list \<Rightarrow> world \<Rightarrow> (error + submission) \<times> world" where
  "resolve e i p w =
     (case LoginFormSchema e p of
        Inl iss \<Rightarrow> (Inr \<lparr>intent = i, payload = p, val = None, error = iss\<rparr>, w)
      | Inr d \<Rightarrow>
          (case transform e i d w of
             (Inl err, w') \<Rightarrow> (Inl err, w')
           | (Inr (Inl iss), w') \<Rightarrow>
               (Inr \<lparr>intent = i, payload = p, val = None, error = iss\<rparr>, w')
           | (Inr (Inr v), w') \<Rightarrow>
               (Inr \<lparr>intent = i, payload = p, val = Some v, error = []\<rparr>, w')))"

text \<open>
  Before it resolves, \<^verbatim>\<open>parse\<close> of conform reads the intent. The text before the
  first slash is its type and the text after it its argument; an intent without a slash,
  such as \<^verbatim>\<open>submit\<close>, or of another type is no special intent. A validate intent
  leaves the payload alone. A list intent is applied to the payload, and \<^verbatim>\<open>parse\<close>
  throws when its argument cannot be read or it cannot be applied.
\<close>

datatype intent_kind = ValidateIntent string | ListIntent string

definition parseIntent :: "string \<Rightarrow> intent_kind option" where
  "parseIntent i =
     (if CHR ''/'' \<in> set i then
        (let ty = takeWhile (\<lambda>c. c \<noteq> CHR ''/'') i;
             arg = tl (dropWhile (\<lambda>c. c \<noteq> CHR ''/'') i)
         in if ty = ''validate'' then Some (ValidateIntent arg)
            else if ty = ''list'' then Some (ListIntent arg)
            else None)
      else None)"

definition intent_payload ::
  "env \<Rightarrow> string \<Rightarrow> (string \<times> string) list \<Rightarrow> (string \<times> string) list option" where
  "intent_payload e i p =
     (case parseIntent i of
        None \<Rightarrow> Some p
      | Some k \<Rightarrow>
          (case k of
             ValidateIntent arg \<Rightarrow> Some p
           | ListIntent arg \<Rightarrow> applyListIntent e arg p))"

definition parse ::
  "env \<Rightarrow> string \<Rightarrow> (string \<times> string) list \<Rightarrow> world \<Rightarrow> (error + submission) \<times> world" where
  "parse e i p w =
     (case intent_payload e i p of
        None \<Rightarrow> (Inl FailedParsingIntent, w)
      | Some p' \<Rightarrow> resolve e i p' w)"

subsection \<open>The loader (lines 34 to 37)\<close>

definition loader :: "env \<Rightarrow> request \<Rightarrow> world \<Rightarrow> outcome \<times> world" where
  "loader e r w =
     (case requireAnonymous e w r of
        AlreadyAuthenticated \<Rightarrow> (Throw redirectAway, finish e RequireAnonymous w)
      | AnonymousProceed \<Rightarrow> (Return (Json 200 NoData), finish e RequireAnonymous w))"

subsection \<open>The action (lines 39 to 94)\<close>

definition strip_value :: "login_value \<Rightarrow> login_value" where
  "strip_value v = v\<lparr>password := None\<rparr>"

text \<open>Lines 77 to 93: the tail of the action once the value carries a user.\<close>

definition commit_login :: "env \<Rightarrow> request \<Rightarrow> login_value \<Rightarrow> Session \<Rightarrow> world \<Rightarrow> outcome \<times> world" where
  "commit_login e r v u w =
     (let w1 = finish e GetSession w;
          cookieSession = AList.update (userIdKey e) (session_id u) (getSession e (cookie r));
          ex = (if remember v then Some (now w1 + SESSION_EXPIRATION_TIME e) else None)
      in (Return (Redirect 302 (safeRedirect e (redirectTo v))
                    (Some (commitSession e cookieSession ex))),
          finish e CommitSession w1))"

definition action :: "env \<Rightarrow> request \<Rightarrow> world \<Rightarrow> outcome \<times> world" where
  "action e r w =
     (case requireAnonymous e w r of
        AlreadyAuthenticated \<Rightarrow> (Throw redirectAway, finish e RequireAnonymous w)
      | AnonymousProceed \<Rightarrow>
          (case parse e (formIntent r) (formFields r)
                  (finish e FormData (finish e RequireAnonymous w)) of
             (Inl err, w') \<Rightarrow> (Crash err, w')
           | (Inr sub, w') \<Rightarrow>
               (let sub1 = sub\<lparr>payload := AList.delete ''password'' (payload sub)\<rparr> in
                if intent sub1 \<noteq> ''submit'' then
                  (Return (Json 200 (ActionData ''idle''
                     (sub1\<lparr>val := map_option strip_value (val sub1)\<rparr>))), w')
                else
                  (case val sub1 of
                     None \<Rightarrow> (Return (Json 400 (ActionData ''error'' sub1)), w')
                   | Some v \<Rightarrow>
                       (case user v of
                          None \<Rightarrow> (Return (Json 400 (ActionData ''error'' sub1)), w')
                        | Some u \<Rightarrow> commit_login e r v u w')))))"

subsection \<open>Observations on a run\<close>

text \<open>The world when the transform runs: the guard has passed and the body is read.\<close>

abbreviation body_read :: "env \<Rightarrow> world \<Rightarrow> world" where
  "body_read e w \<equiv> finish e FormData (finish e RequireAnonymous w)"

text \<open>The calls a run has added to the log.\<close>

definition new_calls :: "world \<Rightarrow> world \<Rightarrow> call list" where
  "new_calls w w' = drop (length (calls w)) (calls w')"

text \<open>The \<^verbatim>\<open>set-cookie\<close> header of a returned redirect.\<close>

definition committed_cookie :: "outcome \<Rightarrow> set_cookie option" where
  "committed_cookie out =
     (case out of
        Return resp \<Rightarrow> (case resp of Redirect st target sc \<Rightarrow> sc | Json st b \<Rightarrow> None)
      | Throw resp \<Rightarrow> None
      | Crash err \<Rightarrow> None)"

text \<open>The submission a JSON response echoes to the client, returned or thrown.\<close>

definition echoed_body :: "response \<Rightarrow> submission option" where
  "echoed_body resp =
     (case resp of
        Json st b \<Rightarrow> (case b of NoData \<Rightarrow> None | ActionData s sub \<Rightarrow> Some sub)
      | Redirect st target sc \<Rightarrow> None)"

definition echoed :: "outcome \<Rightarrow> submission option" where
  "echoed out =
     (case out of
        Return resp \<Rightarrow> echoed_body resp
      | Throw resp \<Rightarrow> echoed_body resp
      | Crash err \<Rightarrow> None)"

text \<open>A submission with no password: none in the payload, none in the value.\<close>

definition password_free :: "submission \<Rightarrow> bool" where
  "password_free sub \<longleftrightarrow>
     map_of (payload sub) ''password'' = None
     \<and> (case val sub of None \<Rightarrow> True | Some v \<Rightarrow> password v = None)"

text \<open>
  The words of section 4.5 for a request that is already authenticated: a session
  identifier decodes from the cookie, the Session Store holds a record under it, and the
  record's \<open>expiresAt\<close> is null or not in the past.
\<close>

definition live_session :: "env \<Rightarrow> world \<Rightarrow> request \<Rightarrow> bool" where
  "live_session e w r =
     (case decode e (cookie r) of
        None \<Rightarrow> False
      | Some sid \<Rightarrow>
          (case sessions w sid of
             None \<Rightarrow> False
           | Some s \<Rightarrow> (case expiresAt s of None \<Rightarrow> True | Some t \<Rightarrow> now w \<le> t)))"

subsection \<open>A concrete scenario\<close>

text \<open>
  The scenario of section 8: user alice with password correct-horse is stored. Required
  fields, a checkbox that is on or absent, a 30-day expiration, a login that takes 80
  milliseconds and other calls that take one. The argument of a list intent must open a
  JSON object to be read; the scenario has no list field and no intent that rewrites
  the payload.
\<close>

definition demo_env :: env where
  "demo_env =
     \<lparr>usernameSchema = (\<lambda>v. case v of None \<Rightarrow> Inl [''Required''] | Some s \<Rightarrow> Inr s),
      passwordSchema = (\<lambda>v. case v of None \<Rightarrow> Inl [''Required''] | Some s \<Rightarrow> Inr s),
      checkboxSchema = (\<lambda>v. Inr (v = Some ''on'')),
      safeRedirect = (\<lambda>t. case t of None \<Rightarrow> ''/'' | Some s \<Rightarrow> s),
      userIdKey = ''userId'',
      sessionKey = ''sessionId'',
      SESSION_EXPIRATION_TIME = 2592000000,
      checkPassword = (\<lambda>pw h. h = ''hash:'' @ pw),
      sign_data = (\<lambda>d. concat (map (\<lambda>(k, v). k @ ''='' @ v @ '';'') d) @ ''secret''),
      duration = (\<lambda>c. case c of Login \<Rightarrow> 80 | _ \<Rightarrow> 1),
      applyListIntent = (\<lambda>arg p. case arg of [] \<Rightarrow> None
                           | c # cs \<Rightarrow> if c = CHR ''{'' then Some p else None)\<rparr>"

definition demo_world :: world where
  "demo_world =
     \<lparr>users = [\<lparr>user_id = ''u1'', user_name = ''alice'', passwordHash = ''hash:correct-horse''\<rparr>],
      sessions = Map.empty,
      now = 1000,
      entropy = [''s1'', ''s2''],
      calls = []\<rparr>"

definition submit_alice :: "string \<Rightarrow> string \<Rightarrow> bool \<Rightarrow> request" where
  "submit_alice i pw rm =
     \<lparr>cookie = None, formIntent = i,
      formFields = [(''username'', ''alice''), (''password'', pw)]
                   @ (if rm then [(''remember'', ''on'')] else [])\<rparr>"

definition alice_form :: "string \<Rightarrow> bool \<Rightarrow> login_form" where
  "alice_form pw rm =
     \<lparr>username = ''alice'', password = Some pw, redirectTo = None, remember = rm\<rparr>"

text \<open>The same world with one stored session, expiring at the given instant.\<close>

definition demo_world_with :: "time option \<Rightarrow> world" where
  "demo_world_with ex =
     demo_world\<lparr>sessions :=
       [''s9'' \<mapsto> \<lparr>session_id = ''s9'', userId = ''u1'', createdAt = 0, expiresAt = ex\<rparr>]\<rparr>"

text \<open>A request whose cookie carries the identifier of that session, rightly signed.\<close>

definition returning :: "request \<Rightarrow> request" where
  "returning r = r\<lparr>cookie := Some (Signed [(''sessionId'', ''s9'')] ''sessionId=s9;secret'')\<rparr>"

section \<open>Properties\<close>

subsection \<open>Auxiliary facts\<close>

lemma finish_fields:
  "users (finish e c w) = users w"
  "sessions (finish e c w) = sessions w"
  "entropy (finish e c w) = entropy w"
  "now (finish e c w) = now w + int (duration e c)"
  "calls (finish e c w) = calls w @ [c]"
  by (simp_all add: finish_def)

lemma verify_finish: "verify e (finish e c w) name pw = verify e w name pw"
  by (simp add: verify_def finish_fields)

lemma verify_None_iff:
  "verify e w name pw = None \<longleftrightarrow>
     (find (\<lambda>u. user_name u = name) (users w) = None
      \<or> (\<exists>u. find (\<lambda>u. user_name u = name) (users w) = Some u
               \<and> \<not> checkPassword e pw (passwordHash u)))"
  by (auto simp: verify_def split: option.splits)

lemma login_rejects:
  assumes "password d = Some pw" and "verify e w (username d) pw = None"
  shows "login e d w = (Inr None, finish e Login w)"
  using assms by (simp add: login_def)

lemma login_accepts:
  assumes "login e d w = (Inr (Some s), w')"
  shows "sessions w' (session_id s) = Some s"
    and "expiresAt s = (if remember d then Some (now w + SESSION_EXPIRATION_TIME e) else None)"
    and "now w' = now w + int (duration e Login)"
    and "calls w' = calls w @ [Login]"
    and "\<exists>u pw. password d = Some pw \<and> verify e w (username d) pw = Some u \<and> userId s = user_id u"
  using assms
  by (auto simp: login_def create_def finish_def Let_def split: option.splits list.splits if_splits)

lemma LoginFormSchema_accepts:
  assumes "LoginFormSchema e p = Inr d"
  shows "password d \<noteq> None" and "redirectTo d = map_of p ''redirectTo''"
  using assms by (auto simp: LoginFormSchema_def split: sum.splits)

lemma parse_submit: "parse e ''submit'' p w = resolve e ''submit'' p w"
  by (simp add: parse_def intent_payload_def parseIntent_def)

lemma parse_refuses:
  assumes "intent_payload e i p = None"
  shows "parse e i p w = (Inl FailedParsingIntent, w)"
  using assms by (simp add: parse_def)

lemma parse_other_intent:
  assumes "i \<noteq> ''submit''" and "intent_payload e i p = Some p'"
  shows "parse e i p w =
     (Inr \<lparr>intent = i, payload = p',
           val = (case LoginFormSchema e p' of Inl iss \<Rightarrow> None | Inr d \<Rightarrow> Some (with_user d None)),
           error = (case LoginFormSchema e p' of Inl iss \<Rightarrow> iss | Inr d \<Rightarrow> [])\<rparr>, w)"
  using assms by (simp add: parse_def resolve_def transform_def split: sum.splits)

lemma resolve_shape:
  assumes "resolve e i p w = (Inr sub, w')"
  shows "intent sub = i" and "payload sub = p"
  using assms
  by (auto simp: resolve_def transform_def split: sum.splits prod.splits option.splits if_splits)

lemma parse_submit_user:
  assumes "parse e ''submit'' p w = (Inr sub, w')" and "val sub = Some v"
  shows "user v \<noteq> None"
  using assms
  by (auto simp: parse_submit resolve_def transform_def with_user_def
      split: sum.splits prod.splits option.splits if_splits)

lemma action_rejected:
  assumes "requireAnonymous e w r = AnonymousProceed"
    and "formIntent r = ''submit''"
    and "LoginFormSchema e (formFields r) = Inr d"
    and "login e d (body_read e w) = (Inr None, w')"
  shows "action e r w =
     (Return (Json 400 (ActionData ''error''
        \<lparr>intent = ''submit'', payload = AList.delete ''password'' (formFields r),
         val = None, error = [('''', [''Invalid username or password''])]\<rparr>)), w')"
  using assms by (simp add: action_def parse_submit resolve_def transform_def)

lemma action_accepted:
  assumes "requireAnonymous e w r = AnonymousProceed"
    and "formIntent r = ''submit''"
    and "LoginFormSchema e (formFields r) = Inr d"
    and "login e d (body_read e w) = (Inr (Some s), w')"
  shows "action e r w =
     (Return (Redirect 302 (safeRedirect e (redirectTo d))
        (Some (commitSession e
           (AList.update (userIdKey e) (session_id s) (getSession e (cookie r)))
           (if remember d then Some (now w' + int (duration e GetSession) + SESSION_EXPIRATION_TIME e)
            else None)))),
      finish e CommitSession (finish e GetSession w'))"
  using assms
  by (simp add: action_def parse_submit resolve_def transform_def commit_login_def with_user_def
      finish_fields Let_def)

lemmas demo_defs = demo_env_def demo_world_def submit_alice_def alice_form_def

lemmas model_defs = action_def requireAnonymous_def decode_def getSession_def get_def
  parse_def intent_payload_def parseIntent_def resolve_def LoginFormSchema_def field_issues_def transform_def login_def verify_def create_def
  finish_def with_user_def commit_login_def commitSession_def strip_value_def loader_def
  redirectAway_def

lemma demo_guard: "requireAnonymous demo_env demo_world (submit_alice i pw rm) = AnonymousProceed"
  by (simp add: demo_defs requireAnonymous_def decode_def getSession_def)

lemma demo_schema: "LoginFormSchema demo_env (formFields (submit_alice i pw rm)) = Inr (alice_form pw rm)"
  by (simp add: demo_defs LoginFormSchema_def)

lemma demo_login:
  "login demo_env (alice_form ''correct-horse'' rm) (body_read demo_env demo_world) =
     (Inr (Some \<lparr>session_id = ''s1'', userId = ''u1'', createdAt = 1002,
                  expiresAt = (if rm then Some 2592001002 else None)\<rparr>),
      \<lparr>users = users demo_world,
       sessions = [''s1'' \<mapsto> \<lparr>session_id = ''s1'', userId = ''u1'', createdAt = 1002,
                  expiresAt = (if rm then Some 2592001002 else None)\<rparr>],
       now = 1082, entropy = [''s2''], calls = [RequireAnonymous, FormData, Login]\<rparr>)"
  by (simp add: demo_defs login_def verify_def create_def finish_def Let_def)

lemma guard_signal_iff:
  "requireAnonymous e w r = AlreadyAuthenticated \<longleftrightarrow> live_session e w r"
  by (auto simp: requireAnonymous_def live_session_def get_def split: option.splits)

lemma guard_proceed_iff:
  "requireAnonymous e w r = AnonymousProceed \<longleftrightarrow> \<not> live_session e w r"
  using guard_signal_iff [of e w r] by (cases "requireAnonymous e w r") auto

lemma getSession_commit:
  "getSession e (Some (cookie_value (commitSession e d ex))) = d"
  by (simp add: getSession_def commitSession_def)

lemma committed_cookie_Redirect [simp]:
  "committed_cookie (Return (Redirect st target sc)) = sc"
  by (simp add: committed_cookie_def)

subsection \<open>The cookie a successful login commits\<close>

text \<open>
  Claim C1: for every valid username/password pair that matches a stored user, a
  submitted login succeeds and the committed cookie decodes to a session identifier
  that maps to a Session of that user. The action does succeed, and the Session is
  created, but line 81 writes the identifier under \<^verbatim>\<open>userIdKey\<close>, the key the
  comment on line 80 says to replace by \<^verbatim>\<open>sessionKey\<close>. So the committed cookie
  holds the new identifier under \<^verbatim>\<open>userIdKey\<close> and decodes to exactly what the
  request's cookie decoded to; after a login without a cookie it decodes to nothing.
\<close>

theorem committed_cookie_keeps_decoded_id:
  assumes "requireAnonymous e w r = AnonymousProceed"
    and "formIntent r = ''submit''"
    and "LoginFormSchema e (formFields r) = Inr d"
    and "login e d (body_read e w) = (Inr (Some s), w')"
    and "userIdKey e \<noteq> sessionKey e"
  shows "\<exists>sc. committed_cookie (fst (action e r w)) = Some sc
           \<and> map_of (getSession e (Some (cookie_value sc))) (userIdKey e) = Some (session_id s)
           \<and> decode e (Some (cookie_value sc)) = decode e (cookie r)"
  using assms(5)
  by (simp add: action_accepted [OF assms(1-4)] getSession_commit decode_def update_conv')

theorem committed_cookie_keeps_decoded_id_witness:
  "requireAnonymous demo_env demo_world (submit_alice ''submit'' ''correct-horse'' True) = AnonymousProceed
   \<and> formIntent (submit_alice ''submit'' ''correct-horse'' True) = ''submit''
   \<and> userIdKey demo_env \<noteq> sessionKey demo_env
   \<and> sessions (snd (action demo_env (submit_alice ''submit'' ''correct-horse'' True) demo_world)) ''s1''
       = Some \<lparr>session_id = ''s1'', userId = ''u1'', createdAt = 1002, expiresAt = Some 2592001002\<rparr>
   \<and> (\<exists>sc. committed_cookie (fst (action demo_env (submit_alice ''submit'' ''correct-horse'' True) demo_world)) = Some sc
          \<and> map_of (getSession demo_env (Some (cookie_value sc))) ''userId'' = Some ''s1''
          \<and> decode demo_env (Some (cookie_value sc)) = None)"
proof -
  let ?r = "submit_alice ''submit'' ''correct-horse'' True"
  have g: "requireAnonymous demo_env demo_world ?r = AnonymousProceed" by (rule demo_guard)
  have i: "formIntent ?r = ''submit''" by (simp add: submit_alice_def)
  have k: "userIdKey demo_env \<noteq> sessionKey demo_env" by (simp add: demo_env_def)
  have c: "decode demo_env (cookie ?r) = None"
    by (simp add: decode_def getSession_def submit_alice_def)
  have u: "userIdKey demo_env = ''userId''" by (simp add: demo_env_def)
  note l = demo_login [of True]
  have st: "sessions (snd (action demo_env ?r demo_world)) ''s1''
       = Some \<lparr>session_id = ''s1'', userId = ''u1'', createdAt = 1002, expiresAt = Some 2592001002\<rparr>"
    by (simp add: action_accepted [OF g i demo_schema l] finish_fields)
  from committed_cookie_keeps_decoded_id [OF g i demo_schema l k] c u g i k st
  show ?thesis by simp
qed

subsection \<open>Rejected credentials\<close>

text \<open>
  Claim C2: for every credential submission where verification fails, because the
  username is unknown or because the password does not match, the action returns the
  validation error as data: the single message "Invalid username or password", filed
  under the form and not under a field, with status 400. The response is the same
  whichever check failed: it is determined by the request alone.
\<close>

theorem invalid_credentials_undifferentiated:
  assumes "requireAnonymous e w r = AnonymousProceed"
    and "formIntent r = ''submit''"
    and "LoginFormSchema e (formFields r) = Inr d"
    and "find (\<lambda>u. user_name u = username d) (users w) = None
         \<or> (\<exists>u pw. find (\<lambda>u. user_name u = username d) (users w) = Some u
                \<and> password d = Some pw \<and> \<not> checkPassword e pw (passwordHash u))"
  shows "fst (action e r w) =
     Return (Json 400 (ActionData ''error''
        \<lparr>intent = ''submit'', payload = AList.delete ''password'' (formFields r),
         val = None, error = [('''', [''Invalid username or password''])]\<rparr>))"
proof -
  obtain pw where pw: "password d = Some pw"
    using LoginFormSchema_accepts(1) [OF assms(3)] by auto
  from assms(4) pw have "verify e w (username d) pw = None"
    by (auto simp: verify_None_iff)
  then have "verify e (body_read e w) (username d) pw = None"
    by (simp add: verify_finish)
  from login_rejects [OF pw this] show ?thesis
    by (simp add: action_rejected [OF assms(1-3)])
qed

theorem invalid_credentials_undifferentiated_witness:
  "requireAnonymous demo_env demo_world (submit_alice ''submit'' ''wrong'' False) = AnonymousProceed
   \<and> requireAnonymous demo_env (demo_world\<lparr>users := []\<rparr>) (submit_alice ''submit'' ''wrong'' False) = AnonymousProceed
   \<and> formIntent (submit_alice ''submit'' ''wrong'' False) = ''submit''
   \<and> find (\<lambda>u. user_name u = ''alice'') (users demo_world)
        = Some \<lparr>user_id = ''u1'', user_name = ''alice'', passwordHash = ''hash:correct-horse''\<rparr>
   \<and> \<not> checkPassword demo_env ''wrong'' ''hash:correct-horse''
   \<and> find (\<lambda>u. user_name u = ''alice'') (users (demo_world\<lparr>users := []\<rparr>)) = None
   \<and> fst (action demo_env (submit_alice ''submit'' ''wrong'' False) demo_world) =
       Return (Json 400 (ActionData ''error''
         \<lparr>intent = ''submit'', payload = [(''username'', ''alice'')],
          val = None, error = [('''', [''Invalid username or password''])]\<rparr>))
   \<and> fst (action demo_env (submit_alice ''submit'' ''wrong'' False) (demo_world\<lparr>users := []\<rparr>)) =
       fst (action demo_env (submit_alice ''submit'' ''wrong'' False) demo_world)"
proof -
  let ?r = "submit_alice ''submit'' ''wrong'' False"
  let ?w = "demo_world\<lparr>users := []\<rparr>"
  have g: "requireAnonymous demo_env demo_world ?r = AnonymousProceed" by (rule demo_guard)
  have g': "requireAnonymous demo_env ?w ?r = AnonymousProceed"
    by (simp add: demo_defs requireAnonymous_def decode_def getSession_def)
  have i: "formIntent ?r = ''submit''" by (simp add: submit_alice_def)
  have f: "find (\<lambda>u. user_name u = ''alice'') (users demo_world)
        = Some \<lparr>user_id = ''u1'', user_name = ''alice'', passwordHash = ''hash:correct-horse''\<rparr>"
    by (simp add: demo_world_def)
  have c: "\<not> checkPassword demo_env ''wrong'' ''hash:correct-horse''" by (simp add: demo_env_def)
  have f': "find (\<lambda>u. user_name u = ''alice'') (users ?w) = None" by simp
  have h: "find (\<lambda>u. user_name u = username (alice_form ''wrong'' False)) (users demo_world) = None
         \<or> (\<exists>u pw. find (\<lambda>u. user_name u = username (alice_form ''wrong'' False)) (users demo_world) = Some u
                \<and> password (alice_form ''wrong'' False) = Some pw \<and> \<not> checkPassword demo_env pw (passwordHash u))"
    using f c by (simp add: alice_form_def)
  have h': "find (\<lambda>u. user_name u = username (alice_form ''wrong'' False)) (users ?w) = None
         \<or> (\<exists>u pw. find (\<lambda>u. user_name u = username (alice_form ''wrong'' False)) (users ?w) = Some u
                \<and> password (alice_form ''wrong'' False) = Some pw \<and> \<not> checkPassword demo_env pw (passwordHash u))"
    by simp
  have p: "AList.delete ''password'' (formFields ?r) = [(''username'', ''alice'')]"
    by (simp add: submit_alice_def)
  from invalid_credentials_undifferentiated [OF g i demo_schema h]
    invalid_credentials_undifferentiated [OF g' i demo_schema h'] g g' i f c f' p
  show ?thesis by simp
qed

text \<open>
  Claim C5: for every credential pair that verification rejects, the action returns the
  invalid-credentials outcome and no Session is created: the Session Store, the
  identifiers it has yet to draw and the Credential Store are as they were.
\<close>

theorem failed_login_creates_no_session:
  assumes "requireAnonymous e w r = AnonymousProceed"
    and "formIntent r = ''submit''"
    and "LoginFormSchema e (formFields r) = Inr d"
    and "password d = Some pw"
    and "verify e w (username d) pw = None"
  shows "fst (action e r w) =
           Return (Json 400 (ActionData ''error''
             \<lparr>intent = ''submit'', payload = AList.delete ''password'' (formFields r),
              val = None, error = [('''', [''Invalid username or password''])]\<rparr>))
         \<and> sessions (snd (action e r w)) = sessions w
         \<and> entropy (snd (action e r w)) = entropy w
         \<and> users (snd (action e r w)) = users w"
proof -
  from assms(5) have "verify e (body_read e w) (username d) pw = None"
    by (simp add: verify_finish)
  from login_rejects [OF assms(4) this] show ?thesis
    by (simp add: action_rejected [OF assms(1-3)] finish_fields)
qed

theorem failed_login_creates_no_session_witness:
  "requireAnonymous demo_env (demo_world_with (Some 5)) (submit_alice ''submit'' ''wrong'' False) = AnonymousProceed
   \<and> formIntent (submit_alice ''submit'' ''wrong'' False) = ''submit''
   \<and> verify demo_env (demo_world_with (Some 5)) ''alice'' ''wrong'' = None
   \<and> verify demo_env (demo_world_with (Some 5)) ''alice'' ''correct-horse'' \<noteq> None
   \<and> fst (action demo_env (submit_alice ''submit'' ''wrong'' False) (demo_world_with (Some 5))) =
       Return (Json 400 (ActionData ''error''
         \<lparr>intent = ''submit'', payload = [(''username'', ''alice'')],
          val = None, error = [('''', [''Invalid username or password''])]\<rparr>))
   \<and> sessions (snd (action demo_env (submit_alice ''submit'' ''wrong'' False) (demo_world_with (Some 5))))
       = sessions (demo_world_with (Some 5))
   \<and> sessions (demo_world_with (Some 5)) ''s9'' \<noteq> None"
proof -
  let ?r = "submit_alice ''submit'' ''wrong'' False"
  let ?w = "demo_world_with (Some 5)"
  have g: "requireAnonymous demo_env ?w ?r = AnonymousProceed"
    by (simp add: demo_defs demo_world_with_def requireAnonymous_def decode_def getSession_def)
  have i: "formIntent ?r = ''submit''" by (simp add: submit_alice_def)
  have p: "password (alice_form ''wrong'' False) = Some ''wrong''" by (simp add: alice_form_def)
  have v: "verify demo_env ?w (username (alice_form ''wrong'' False)) ''wrong'' = None"
    by (simp add: demo_defs demo_world_with_def verify_def)
  have v': "verify demo_env ?w ''alice'' ''correct-horse'' \<noteq> None"
    by (simp add: demo_defs demo_world_with_def verify_def)
  have a: "fst (action demo_env ?r ?w) =
       Return (Json 400 (ActionData ''error''
         \<lparr>intent = ''submit'', payload = [(''username'', ''alice'')],
          val = None, error = [('''', [''Invalid username or password''])]\<rparr>))"
    by (simp add: model_defs demo_defs demo_world_with_def Let_def)
  have s: "sessions ?w ''s9'' \<noteq> None" by (simp add: demo_world_with_def)
  from failed_login_creates_no_session [OF g i demo_schema p v] g i v v' a s
  show ?thesis by (simp add: alice_form_def)
qed

subsection \<open>Accepted credentials\<close>

text \<open>
  Claim C3: for every valid credential pair, a submission with remember set commits a
  cookie whose \<open>Expires\<close> is the clock plus \<^verbatim>\<open>SESSION_EXPIRATION_TIME\<close>, and a
  submission without it commits a cookie with no \<open>Expires\<close>. The clock is the one
  line 89 reads, after the guard, the body, the login and the cookie session have been
  awaited: it lies between the arrival of the request and the return of the action,
  which is the tolerance.
\<close>

theorem remember_decides_cookie_expiry:
  assumes "requireAnonymous e w r = AnonymousProceed"
    and "formIntent r = ''submit''"
    and "LoginFormSchema e (formFields r) = Inr d"
    and "login e d (body_read e w) = (Inr (Some s), w')"
  shows "\<exists>sc t. committed_cookie (fst (action e r w)) = Some sc
           \<and> expires sc = (if remember d then Some (t + SESSION_EXPIRATION_TIME e) else None)
           \<and> t = now w + int (duration e RequireAnonymous + duration e FormData
                               + duration e Login + duration e GetSession)
           \<and> now w \<le> t \<and> t \<le> now (snd (action e r w))"
  by (simp add: action_accepted [OF assms] commitSession_def finish_fields
      login_accepts(3) [OF assms(4)])

theorem remember_decides_cookie_expiry_witness:
  "requireAnonymous demo_env demo_world (submit_alice ''submit'' ''correct-horse'' True) = AnonymousProceed
   \<and> requireAnonymous demo_env demo_world (submit_alice ''submit'' ''correct-horse'' False) = AnonymousProceed
   \<and> formIntent (submit_alice ''submit'' ''correct-horse'' True) = ''submit''
   \<and> formIntent (submit_alice ''submit'' ''correct-horse'' False) = ''submit''
   \<and> now demo_world = 1000
   \<and> SESSION_EXPIRATION_TIME demo_env = 2592000000
   \<and> map_option expires (committed_cookie (fst (action demo_env
         (submit_alice ''submit'' ''correct-horse'' True) demo_world))) = Some (Some 2592001083)
   \<and> map_option expires (committed_cookie (fst (action demo_env
         (submit_alice ''submit'' ''correct-horse'' False) demo_world))) = Some None"
proof -
  let ?rt = "submit_alice ''submit'' ''correct-horse'' True"
  let ?rf = "submit_alice ''submit'' ''correct-horse'' False"
  have gt: "requireAnonymous demo_env demo_world ?rt = AnonymousProceed" by (rule demo_guard)
  have gf: "requireAnonymous demo_env demo_world ?rf = AnonymousProceed" by (rule demo_guard)
  have it: "formIntent ?rt = ''submit''" by (simp add: submit_alice_def)
  have "if": "formIntent ?rf = ''submit''" by (simp add: submit_alice_def)
  have n: "now demo_world = 1000" by (simp add: demo_world_def)
  have x: "SESSION_EXPIRATION_TIME demo_env = 2592000000" by (simp add: demo_env_def)
  have du: "duration demo_env RequireAnonymous = 1" "duration demo_env FormData = 1"
    "duration demo_env Login = 80" "duration demo_env GetSession = 1"
    by (simp_all add: demo_env_def)
  have rm: "remember (alice_form ''correct-horse'' True)" "\<not> remember (alice_form ''correct-horse'' False)"
    by (simp_all add: alice_form_def)
  from remember_decides_cookie_expiry [OF gt it demo_schema demo_login [of True]]
    remember_decides_cookie_expiry [OF gf "if" demo_schema demo_login [of False]]
    gt gf it "if" n x du rm
  show ?thesis by auto
qed

text \<open>
  Claim C8: for every successful login the response is a redirect, status 302, to the
  sanitized \<^verbatim>\<open>redirectTo\<close> field of the form, and it carries the \<^verbatim>\<open>set-cookie\<close>
  header that \<^verbatim>\<open>commitSession\<close> produced for the cookie session of lines 79 to 81.
\<close>

theorem successful_login_redirects_with_cookie:
  assumes "requireAnonymous e w r = AnonymousProceed"
    and "formIntent r = ''submit''"
    and "LoginFormSchema e (formFields r) = Inr d"
    and "login e d (body_read e w) = (Inr (Some s), w')"
  shows "fst (action e r w) =
     Return (Redirect 302 (safeRedirect e (map_of (formFields r) ''redirectTo''))
       (Some (commitSession e
          (AList.update (userIdKey e) (session_id s) (getSession e (cookie r)))
          (if remember d
           then Some (now w' + int (duration e GetSession) + SESSION_EXPIRATION_TIME e)
           else None))))"
  by (simp add: action_accepted [OF assms] LoginFormSchema_accepts(2) [OF assms(3)])

theorem successful_login_redirects_with_cookie_witness:
  "requireAnonymous demo_env demo_world
      ((submit_alice ''submit'' ''correct-horse'' False)\<lparr>formFields := (''redirectTo'', ''/notes'')
          # formFields (submit_alice ''submit'' ''correct-horse'' False)\<rparr>) = AnonymousProceed
   \<and> fst (action demo_env
      ((submit_alice ''submit'' ''correct-horse'' False)\<lparr>formFields := (''redirectTo'', ''/notes'')
          # formFields (submit_alice ''submit'' ''correct-horse'' False)\<rparr>) demo_world) =
     Return (Redirect 302 ''/notes''
       (Some \<lparr>cookie_value = Signed [(''userId'', ''s1'')] ''userId=s1;secret'', expires = None\<rparr>))"
proof -
  let ?r = "(submit_alice ''submit'' ''correct-horse'' False)\<lparr>formFields := (''redirectTo'', ''/notes'')
          # formFields (submit_alice ''submit'' ''correct-horse'' False)\<rparr>"
  let ?d = "(alice_form ''correct-horse'' False)\<lparr>redirectTo := Some ''/notes''\<rparr>"
  have g: "requireAnonymous demo_env demo_world ?r = AnonymousProceed"
    by (simp add: demo_defs requireAnonymous_def decode_def getSession_def)
  have i: "formIntent ?r = ''submit''" by (simp add: submit_alice_def)
  have sch: "LoginFormSchema demo_env (formFields ?r) = Inr ?d"
    by (simp add: demo_defs LoginFormSchema_def)
  have l: "login demo_env ?d (body_read demo_env demo_world) =
     (Inr (Some \<lparr>session_id = ''s1'', userId = ''u1'', createdAt = 1002, expiresAt = None\<rparr>),
      \<lparr>users = users demo_world,
       sessions = [''s1'' \<mapsto> \<lparr>session_id = ''s1'', userId = ''u1'', createdAt = 1002,
                  expiresAt = None\<rparr>],
       now = 1082, entropy = [''s2''], calls = [RequireAnonymous, FormData, Login]\<rparr>)"
    by (simp add: demo_defs login_def verify_def create_def finish_def Let_def)
  from successful_login_redirects_with_cookie [OF g i sch l] g
  show ?thesis
    by (simp add: demo_defs commitSession_def getSession_def)
qed

text \<open>
  Claim C4: for every successful login the cookie's \<open>Expires\<close> and the \<open>expiresAt\<close>
  of the created Session are the same value, computed once and not recomputed where the
  cookie is committed. Lines 88 to 90 do recompute it, from a later reading of the
  clock (the comment on lines 86 and 87 says the value is available on the session and
  need not be computed there). With remember set, the cookie's expiry is the
  Session's plus the time the login and the cookie-session read took, so the two differ
  as soon as that time is not zero.
\<close>

theorem cookie_expiry_recomputed_at_call_site:
  assumes "requireAnonymous e w r = AnonymousProceed"
    and "formIntent r = ''submit''"
    and "LoginFormSchema e (formFields r) = Inr d"
    and "login e d (body_read e w) = (Inr (Some s), w')"
    and "remember d"
    and "0 < duration e Login + duration e GetSession"
  shows "\<exists>sc t. committed_cookie (fst (action e r w)) = Some sc
           \<and> sessions (snd (action e r w)) (session_id s) = Some s
           \<and> expiresAt s = Some t
           \<and> expires sc = Some (t + int (duration e Login + duration e GetSession))
           \<and> expires sc \<noteq> expiresAt s"
proof -
  have pos: "int (duration e Login) + int (duration e GetSession) \<noteq> 0"
    using assms(6) by linarith
  show ?thesis
    using assms(5) pos
    by (simp add: action_accepted [OF assms(1-4)] commitSession_def finish_fields
        login_accepts(1-3) [OF assms(4)])
qed

theorem cookie_expiry_recomputed_at_call_site_witness:
  "requireAnonymous demo_env demo_world (submit_alice ''submit'' ''correct-horse'' True) = AnonymousProceed
   \<and> formIntent (submit_alice ''submit'' ''correct-horse'' True) = ''submit''
   \<and> remember (alice_form ''correct-horse'' True)
   \<and> 0 < duration demo_env Login + duration demo_env GetSession
   \<and> map_option expiresAt (sessions (snd (action demo_env
         (submit_alice ''submit'' ''correct-horse'' True) demo_world)) ''s1'') = Some (Some 2592001002)
   \<and> map_option expires (committed_cookie (fst (action demo_env
         (submit_alice ''submit'' ''correct-horse'' True) demo_world))) = Some (Some 2592001083)"
proof -
  let ?r = "submit_alice ''submit'' ''correct-horse'' True"
  have g: "requireAnonymous demo_env demo_world ?r = AnonymousProceed" by (rule demo_guard)
  have i: "formIntent ?r = ''submit''" by (simp add: submit_alice_def)
  have rm: "remember (alice_form ''correct-horse'' True)" by (simp add: alice_form_def)
  have du: "duration demo_env Login = 80" "duration demo_env GetSession = 1"
    by (simp_all add: demo_env_def)
  have p: "0 < duration demo_env Login + duration demo_env GetSession" by (simp add: du)
  from cookie_expiry_recomputed_at_call_site [OF g i demo_schema demo_login [of True] rm p]
    g i rm p du
  show ?thesis by auto
qed

subsection \<open>The guard comes first\<close>

lemma new_calls_append: "calls w' = calls w @ cs \<Longrightarrow> new_calls w w' = cs"
  by (simp add: new_calls_def)

lemma login_frame:
  "login e d w = (res, w') \<Longrightarrow> \<exists>cs. calls w' = calls w @ cs"
  by (auto simp: login_def create_def finish_def Let_def split: option.splits list.splits)

lemma parse_frame:
  "parse e i p w = (res, w') \<Longrightarrow> \<exists>cs. calls w' = calls w @ cs"
  by (auto simp: parse_def resolve_def transform_def dest: login_frame
      split: sum.splits prod.splits option.splits if_splits)

lemma action_live:
  assumes "live_session e w r"
  shows "action e r w = (Throw redirectAway, finish e RequireAnonymous w)"
  using assms by (simp add: action_def guard_signal_iff [symmetric])

text \<open>Whatever the request, the first call the action completes is the guard.\<close>

lemma action_guard_first:
  "\<exists>cs. calls (snd (action e r w)) = calls w @ RequireAnonymous # cs"
proof (cases "requireAnonymous e w r")
  case AlreadyAuthenticated
  then show ?thesis by (simp add: action_def finish_fields)
next
  case AnonymousProceed
  obtain res w' where p: "parse e (formIntent r) (formFields r) (body_read e w) = (res, w')"
    by (cases "parse e (formIntent r) (formFields r) (body_read e w)")
  from parse_frame [OF p]
  obtain cs where cs: "calls w' = calls w @ RequireAnonymous # FormData # cs"
    by (auto simp: finish_fields)
  show ?thesis
    using AnonymousProceed p cs
    by (auto simp: action_def commit_login_def finish_fields Let_def
        split: sum.splits option.splits)
qed

text \<open>
  Claim C9: for every POST whose cookie resolves to a live session, the guard runs
  before the form body is read, so the login is never invoked: the action throws the
  guard's redirect, the only call it has completed is the guard, and the Session Store
  and the identifiers it has yet to draw are untouched.
\<close>

theorem guard_precedes_form_body:
  assumes "live_session e w r"
  shows "fst (action e r w) = Throw redirectAway
         \<and> new_calls w (snd (action e r w)) = [RequireAnonymous]
         \<and> sessions (snd (action e r w)) = sessions w
         \<and> entropy (snd (action e r w)) = entropy w"
  by (simp add: action_live [OF assms] finish_fields new_calls_append)

theorem guard_precedes_form_body_witness:
  "live_session demo_env (demo_world_with (Some 5000))
      (returning (submit_alice ''submit'' ''correct-horse'' True))
   \<and> fst (action demo_env (returning (submit_alice ''submit'' ''correct-horse'' True))
             (demo_world_with (Some 5000))) = Throw (Redirect 302 ''/'' None)
   \<and> calls (snd (action demo_env (returning (submit_alice ''submit'' ''correct-horse'' True))
             (demo_world_with (Some 5000)))) = [RequireAnonymous]
   \<and> calls (snd (action demo_env (submit_alice ''submit'' ''correct-horse'' True)
             (demo_world_with (Some 5000))))
       = [RequireAnonymous, FormData, Login, GetSession, CommitSession]"
proof -
  let ?r = "returning (submit_alice ''submit'' ''correct-horse'' True)"
  let ?w = "demo_world_with (Some 5000)"
  have l: "live_session demo_env ?w ?r"
    by (simp add: live_session_def decode_def getSession_def returning_def demo_defs
        demo_world_with_def)
  have c: "calls ?w = []" by (simp add: demo_world_with_def demo_world_def)
  have a: "calls (snd (action demo_env (submit_alice ''submit'' ''correct-horse'' True) ?w))
       = [RequireAnonymous, FormData, Login, GetSession, CommitSession]"
    by (simp add: model_defs demo_defs demo_world_with_def Let_def)
  from guard_precedes_form_body [OF l] l c a
  show ?thesis by (simp add: new_calls_def redirectAway_def)
qed

subsection \<open>The loader\<close>

lemma loader_eq:
  "loader e r w =
     (if live_session e w r then Throw redirectAway else Return (Json 200 NoData),
      finish e RequireAnonymous w)"
  by (cases "requireAnonymous e w r")
     (simp_all add: loader_def guard_signal_iff [symmetric])

lemma decode_fails:
  "decode e None = None"
  "decode e (Some (Malformed x)) = None"
  "sg \<noteq> sign_data e d \<Longrightarrow> decode e (Some (Signed d sg)) = None"
  by (simp_all add: decode_def getSession_def)

text \<open>
  Claim C6: for every request to the login page, if the cookie decodes to a live
  session (existing and not expired) the guard signals "already authenticated" and the
  requester is redirected away; if decoding fails, or the session is absent or expired,
  the guard signals "anonymous, proceed" and the page is served. The loader never
  changes the Session Store.
\<close>

theorem loader_anonymous_guard:
  "(live_session e w r \<longrightarrow> fst (loader e r w) = Throw redirectAway)
   \<and> (\<not> live_session e w r \<longrightarrow> fst (loader e r w) = Return (Json 200 NoData))
   \<and> (decode e (cookie r) = None \<longrightarrow> fst (loader e r w) = Return (Json 200 NoData))
   \<and> (\<forall>sid. decode e (cookie r) = Some sid \<and> get w sid = None
          \<longrightarrow> fst (loader e r w) = Return (Json 200 NoData))
   \<and> sessions (snd (loader e r w)) = sessions w"
  by (auto simp: loader_eq finish_fields live_session_def get_def split: option.splits if_splits)

theorem loader_anonymous_guard_witness:
  "live_session demo_env (demo_world_with (Some 5000)) (returning (submit_alice '''' '''' False))
   \<and> fst (loader demo_env (returning (submit_alice '''' '''' False)) (demo_world_with (Some 5000)))
       = Throw (Redirect 302 ''/'' None)
   \<and> live_session demo_env (demo_world_with None) (returning (submit_alice '''' '''' False))
   \<and> fst (loader demo_env (returning (submit_alice '''' '''' False)) (demo_world_with None))
       = Throw (Redirect 302 ''/'' None)
   \<and> \<not> live_session demo_env (demo_world_with (Some 999)) (returning (submit_alice '''' '''' False))
   \<and> decode demo_env (cookie (returning (submit_alice '''' '''' False))) = Some ''s9''
   \<and> get (demo_world_with (Some 999)) ''s9'' = None
   \<and> fst (loader demo_env (returning (submit_alice '''' '''' False)) (demo_world_with (Some 999)))
       = Return (Json 200 NoData)
   \<and> get demo_world ''s9'' = None
   \<and> fst (loader demo_env (returning (submit_alice '''' '''' False)) demo_world)
       = Return (Json 200 NoData)
   \<and> decode demo_env (cookie (submit_alice '''' '''' False)) = None
   \<and> fst (loader demo_env (submit_alice '''' '''' False) (demo_world_with (Some 5000)))
       = Return (Json 200 NoData)
   \<and> decode demo_env (Some (Signed [(''sessionId'', ''s9'')] ''forged'')) = None
   \<and> fst (loader demo_env ((submit_alice '''' '''' False)
               \<lparr>cookie := Some (Signed [(''sessionId'', ''s9'')] ''forged'')\<rparr>)
             (demo_world_with (Some 5000)))
       = Return (Json 200 NoData)"
proof -
  let ?a = "submit_alice '''' '''' False"
  let ?r = "returning ?a"
  let ?f = "?a\<lparr>cookie := Some (Signed [(''sessionId'', ''s9'')] ''forged'')\<rparr>"
  have d: "decode demo_env (cookie ?r) = Some ''s9''"
    by (simp add: decode_def getSession_def returning_def demo_defs)
  have d0: "decode demo_env (cookie ?a) = None"
    by (simp add: decode_def getSession_def demo_defs)
  have df: "decode demo_env (Some (Signed [(''sessionId'', ''s9'')] ''forged'')) = None"
    by (simp add: decode_def getSession_def demo_defs)
  have cf: "cookie ?f = Some (Signed [(''sessionId'', ''s9'')] ''forged'')" by simp
  have l1: "live_session demo_env (demo_world_with (Some 5000)) ?r"
    by (simp add: live_session_def d) (simp add: demo_world_with_def demo_world_def)
  have l2: "live_session demo_env (demo_world_with None) ?r"
    by (simp add: live_session_def d) (simp add: demo_world_with_def demo_world_def)
  have l3: "\<not> live_session demo_env (demo_world_with (Some 999)) ?r"
    by (simp add: live_session_def d) (simp add: demo_world_with_def demo_world_def)
  have g3: "get (demo_world_with (Some 999)) ''s9'' = None"
    by (simp add: get_def demo_world_with_def demo_world_def)
  have g4: "get demo_world ''s9'' = None"
    by (simp add: get_def demo_world_def)
  note c1 = conjunct1
  note c2 = conjunct2 [THEN conjunct1]
  note c3 = conjunct2 [THEN conjunct2, THEN conjunct1]
  note c4 = conjunct2 [THEN conjunct2, THEN conjunct2, THEN conjunct1]
  have t1: "fst (loader demo_env ?r (demo_world_with (Some 5000))) = Throw redirectAway"
    using loader_anonymous_guard [of demo_env "demo_world_with (Some 5000)" ?r, THEN c1] l1
    by (rule mp)
  have t2: "fst (loader demo_env ?r (demo_world_with None)) = Throw redirectAway"
    using loader_anonymous_guard [of demo_env "demo_world_with None" ?r, THEN c1] l2
    by (rule mp)
  have t3: "fst (loader demo_env ?r (demo_world_with (Some 999))) = Return (Json 200 NoData)"
    using loader_anonymous_guard [of demo_env "demo_world_with (Some 999)" ?r, THEN c2] l3
    by (rule mp)
  have t4: "fst (loader demo_env ?r demo_world) = Return (Json 200 NoData)"
    using loader_anonymous_guard [of demo_env demo_world ?r, THEN c4, rule_format, of "''s9''"]
      d g4 by simp
  have t5: "fst (loader demo_env ?a (demo_world_with (Some 5000))) = Return (Json 200 NoData)"
    using loader_anonymous_guard [of demo_env "demo_world_with (Some 5000)" ?a, THEN c3] d0
    by (rule mp)
  have t6: "fst (loader demo_env ?f (demo_world_with (Some 5000))) = Return (Json 200 NoData)"
    using loader_anonymous_guard [of demo_env "demo_world_with (Some 5000)" ?f, THEN c3] df
    by (simp only: cf)
  show ?thesis
    using t1 t2 t3 t4 t5 t6 d d0 df l1 l2 l3 g3 g4 unfolding redirectAway_def
    by (intro conjI)
qed

subsection \<open>What the action echoes\<close>

lemma payload_stripped: "map_of (AList.delete ''password'' p) ''password'' = None"
  by (simp add: delete_conv')

lemma action_other_intent:
  assumes "requireAnonymous e w r = AnonymousProceed"
    and "formIntent r \<noteq> ''submit''"
    and "intent_payload e (formIntent r) (formFields r) = Some p'"
  shows "action e r w =
     (Return (Json 200 (ActionData ''idle''
        \<lparr>intent = formIntent r,
         payload = AList.delete ''password'' p',
         val = (case LoginFormSchema e p' of
                  Inl iss \<Rightarrow> None
                | Inr d \<Rightarrow> Some (strip_value (with_user d None))),
         error = (case LoginFormSchema e p' of Inl iss \<Rightarrow> iss | Inr d \<Rightarrow> [])\<rparr>)),
      body_read e w)"
  using assms by (simp add: action_def parse_other_intent split: sum.splits)

lemma action_refused_intent:
  assumes "requireAnonymous e w r = AnonymousProceed"
    and "intent_payload e (formIntent r) (formFields r) = None"
  shows "action e r w = (Crash FailedParsingIntent, body_read e w)"
  using assms by (simp add: action_def parse_refuses)

text \<open>
  Claim C10, as stated: for every submission whose intent is not \<^verbatim>\<open>submit\<close>, the
  action verifies no credential, changes no store, and returns status \<^verbatim>\<open>idle\<close>
  with the password stripped from the echoed payload and the parsed value. It fails at
  the intent \<^verbatim>\<open>list/x\<close>: \<^verbatim>\<open>parse\<close> cannot read the argument of that list intent
  and throws on line 42, so the action returns nothing.
\<close>

theorem other_intent_list_counterexample:
  "formIntent (submit_alice ''list/x'' ''correct-horse'' True) \<noteq> ''submit''
   \<and> requireAnonymous demo_env demo_world (submit_alice ''list/x'' ''correct-horse'' True)
        = AnonymousProceed
   \<and> fst (action demo_env (submit_alice ''list/x'' ''correct-horse'' True) demo_world)
        = Crash FailedParsingIntent
   \<and> echoed (fst (action demo_env (submit_alice ''list/x'' ''correct-horse'' True) demo_world))
        = None"
proof -
  let ?r = "submit_alice ''list/x'' ''correct-horse'' True"
  have i: "formIntent ?r \<noteq> ''submit''" by (simp add: submit_alice_def)
  have g: "requireAnonymous demo_env demo_world ?r = AnonymousProceed" by (rule demo_guard)
  have n: "intent_payload demo_env (formIntent ?r) (formFields ?r) = None"
    by (simp add: intent_payload_def parseIntent_def submit_alice_def demo_env_def)
  show ?thesis
    using i g by (simp add: action_refused_intent [OF g n] echoed_def)
qed

text \<open>
  Claim C10, amended: for every submission whose intent is not \<^verbatim>\<open>submit\<close>, the
  action verifies no credential and changes no store; and when \<^verbatim>\<open>parse\<close> accepts
  the intent (it is no list intent, or a list intent conform can read and apply) and the
  guard has let the request through, the action returns status \<^verbatim>\<open>idle\<close> with the
  intent, the payload without its password, the issues of the schema, and as value the
  parsed value, with a null user and without its password. When \<^verbatim>\<open>parse\<close> does
  not accept the intent, the action throws what \<^verbatim>\<open>parse\<close> throws.
\<close>

theorem other_intent_only_echoes:
  assumes "formIntent r \<noteq> ''submit''"
  shows "Login \<notin> set (new_calls w (snd (action e r w)))
         \<and> sessions (snd (action e r w)) = sessions w
         \<and> entropy (snd (action e r w)) = entropy w
         \<and> users (snd (action e r w)) = users w
         \<and> (\<forall>p'. requireAnonymous e w r = AnonymousProceed
                \<and> intent_payload e (formIntent r) (formFields r) = Some p' \<longrightarrow>
              fst (action e r w) =
                Return (Json 200 (ActionData ''idle''
                  \<lparr>intent = formIntent r,
                   payload = AList.delete ''password'' p',
                   val = (case LoginFormSchema e p' of
                            Inl iss \<Rightarrow> None
                          | Inr d \<Rightarrow>
                              Some \<lparr>username = username d, password = None,
                                    redirectTo = redirectTo d, remember = remember d,
                                    user = None\<rparr>),
                   error = (case LoginFormSchema e p' of Inl iss \<Rightarrow> iss | Inr d \<Rightarrow> [])\<rparr>)))
         \<and> (requireAnonymous e w r = AnonymousProceed
                \<and> intent_payload e (formIntent r) (formFields r) = None \<longrightarrow>
              fst (action e r w) = Crash FailedParsingIntent)"
proof (cases "requireAnonymous e w r")
  case AlreadyAuthenticated
  then show ?thesis
    by (simp add: action_def finish_fields new_calls_append)
next
  case AnonymousProceed
  have c: "calls (body_read e w) = calls w @ [RequireAnonymous, FormData]"
    by (simp add: finish_fields)
  show ?thesis
  proof (cases "intent_payload e (formIntent r) (formFields r)")
    case None
    then show ?thesis
      by (simp add: action_refused_intent [OF AnonymousProceed None] finish_fields
          new_calls_append [OF c])
  next
    case (Some p')
    show ?thesis
      using AnonymousProceed Some
      by (simp add: action_other_intent [OF AnonymousProceed assms Some] finish_fields
          new_calls_append [OF c] strip_value_def with_user_def split: sum.splits)
  qed
qed

theorem other_intent_only_echoes_witness:
  "formIntent (submit_alice ''validate/username'' ''correct-horse'' True) \<noteq> ''submit''
   \<and> requireAnonymous demo_env demo_world (submit_alice ''validate/username'' ''correct-horse'' True)
        = AnonymousProceed
   \<and> intent_payload demo_env ''validate/username''
        (formFields (submit_alice ''validate/username'' ''correct-horse'' True))
        = Some [(''username'', ''alice''), (''password'', ''correct-horse''), (''remember'', ''on'')]
   \<and> fst (action demo_env (submit_alice ''validate/username'' ''correct-horse'' True) demo_world) =
       Return (Json 200 (ActionData ''idle''
          \<lparr>intent = ''validate/username'',
           payload = [(''username'', ''alice''), (''remember'', ''on'')],
           val = Some \<lparr>username = ''alice'', password = None, redirectTo = None,
                        remember = True, user = None\<rparr>,
           error = []\<rparr>))
   \<and> snd (action demo_env (submit_alice ''validate/username'' ''correct-horse'' True) demo_world) =
        demo_world\<lparr>now := 1002, calls := [RequireAnonymous, FormData]\<rparr>
   \<and> Login \<notin> set (new_calls demo_world
         (snd (action demo_env (submit_alice ''validate/username'' ''correct-horse'' True) demo_world)))"
proof -
  let ?r = "submit_alice ''validate/username'' ''correct-horse'' True"
  let ?p = "[(''username'', ''alice''), (''password'', ''correct-horse''), (''remember'', ''on'')]"
  have i: "formIntent ?r \<noteq> ''submit''" by (simp add: submit_alice_def)
  have i': "formIntent ?r = ''validate/username''" by (simp add: submit_alice_def)
  have g: "requireAnonymous demo_env demo_world ?r = AnonymousProceed" by (rule demo_guard)
  have f: "formFields ?r = ?p" by (simp add: submit_alice_def)
  have ip: "intent_payload demo_env (formIntent ?r) (formFields ?r) = Some ?p"
    by (simp add: intent_payload_def parseIntent_def i' f)
  have sch: "LoginFormSchema demo_env ?p = Inr (alice_form ''correct-horse'' True)"
    using demo_schema [of "''validate/username''" "''correct-horse''" True] by (simp only: f)
  have d: "AList.delete ''password'' ?p = [(''username'', ''alice''), (''remember'', ''on'')]"
    by simp
  note t = other_intent_only_echoes [OF i, of demo_world demo_env]
  have t1: "Login \<notin> set (new_calls demo_world (snd (action demo_env ?r demo_world)))"
    using t by (rule conjunct1)
  have t5: "fst (action demo_env ?r demo_world) =
       Return (Json 200 (ActionData ''idle''
          \<lparr>intent = ''validate/username'',
           payload = [(''username'', ''alice''), (''remember'', ''on'')],
           val = Some \<lparr>username = ''alice'', password = None, redirectTo = None,
                        remember = True, user = None\<rparr>,
           error = []\<rparr>))"
    using t [THEN conjunct2, THEN conjunct2, THEN conjunct2, THEN conjunct2, THEN conjunct1,
        rule_format, of ?p] g ip
    by (simp add: sch d i') (simp add: alice_form_def)
  have w: "snd (action demo_env ?r demo_world) =
        demo_world\<lparr>now := 1002, calls := [RequireAnonymous, FormData]\<rparr>"
    by (simp add: action_other_intent [OF g i ip]) (simp add: demo_defs finish_def)
  show ?thesis
    using i g ip t1 t5 w by (simp only: i' f) simp
qed

text \<open>
  Claim C7: for every login submission, the submitted password is in no response of
  the action: whenever the outcome carries a submission, returned or thrown, its payload
  has no password field and its value, if any, has no password. The redirects carry no
  submission at all.
\<close>

theorem action_never_echoes_password:
  assumes "echoed (fst (action e r w)) = Some sub"
  shows "password_free sub"
proof (cases "requireAnonymous e w r")
  case AlreadyAuthenticated
  with assms show ?thesis
    by (simp add: action_def echoed_def echoed_body_def redirectAway_def)
next
  case AnonymousProceed
  show ?thesis
  proof (cases "formIntent r = ''submit''")
    case False
    show ?thesis
    proof (cases "intent_payload e (formIntent r) (formFields r)")
      case None
      with assms show ?thesis
        by (simp add: action_refused_intent [OF AnonymousProceed None] echoed_def)
    next
      case (Some p')
      with assms show ?thesis
        by (auto simp: action_other_intent [OF AnonymousProceed False Some] echoed_def
            echoed_body_def password_free_def payload_stripped strip_value_def
            split: sum.splits)
    qed
  next
    case True
    obtain res w' where p: "parse e ''submit'' (formFields r) (body_read e w) = (res, w')"
      by (cases "parse e ''submit'' (formFields r) (body_read e w)")
    show ?thesis
    proof (cases res)
      case (Inl err)
      with assms AnonymousProceed True p show ?thesis
        by (simp add: action_def echoed_def)
    next
      case (Inr s0)
      note sh = resolve_shape [OF p [unfolded Inr parse_submit]]
      show ?thesis
      proof (cases "val s0")
        case None
        with assms AnonymousProceed True p Inr sh show ?thesis
          by (auto simp: action_def echoed_def echoed_body_def password_free_def payload_stripped)
      next
        case (Some v)
        from parse_submit_user [OF p [unfolded Inr] Some] obtain u where u: "user v = Some u"
          by auto
        with assms AnonymousProceed True p Inr sh Some show ?thesis
          by (simp add: action_def commit_login_def echoed_def echoed_body_def Let_def)
      qed
    qed
  qed
qed

theorem action_never_echoes_password_witness:
  "map_of (formFields (submit_alice ''submit'' ''wrong'' False)) ''password'' = Some ''wrong''
   \<and> echoed (fst (action demo_env (submit_alice ''submit'' ''wrong'' False) demo_world)) =
       Some \<lparr>intent = ''submit'', payload = [(''username'', ''alice'')],
             val = None, error = [('''', [''Invalid username or password''])]\<rparr>
   \<and> password_free \<lparr>intent = ''submit'', payload = [(''username'', ''alice'')],
             val = None, error = [('''', [''Invalid username or password''])]\<rparr>"
proof -
  let ?r = "submit_alice ''submit'' ''wrong'' False"
  have f: "map_of (formFields ?r) ''password'' = Some ''wrong''"
    by (simp add: submit_alice_def)
  have a: "echoed (fst (action demo_env ?r demo_world)) =
       Some \<lparr>intent = ''submit'', payload = [(''username'', ''alice'')],
             val = None, error = [('''', [''Invalid username or password''])]\<rparr>"
    by (simp add: model_defs demo_defs echoed_def echoed_body_def Let_def)
  from action_never_echoes_password [OF a] f a
  show ?thesis by (intro conjI)
qed

end
